theory Spec2Isabelle
  imports Main "HOL-Library.Word"
begin

unbundle bit_operations_syntax

section \<open>The GRO dispatcher of package stack (gro.go)\<close>

text \<open>
  A shallow embedding of the generic receive offload dispatcher: the buckets with their
  preallocated slots and intrusive packet list, the header comparison of
  \<open>findGROPacket\<close>, the \<open>dispatch\<close> path and the two flush passes of the timer
  goroutine.  Pointers to \<open>groPacket\<close> structs are slot numbers of the bucket's
  \<open>packetsPrealloc\<close> array, because every \<open>groPacket\<close> of a bucket lives there.
  A Go panic is a value of type \<open>panic\<close>; a loop that does not return is \<open>None\<close>.
\<close>

subsection \<open>Constants\<close>

definition groNBuckets :: nat where
  "groNBuckets = 8"

definition groNBucketsMask :: nat where
  "groNBucketsMask = groNBuckets - 1"

definition groBucketSize :: nat where
  "groBucketSize = 8"

definition groMaxPacketSize :: int where
  "groMaxPacketSize = 2 ^ 16"

subsection \<open>Header views\<close>

type_synonym byte = "8 word"
type_synonym bytes = "byte list"

text \<open>
  Modelled from the spec: the package header (IPv4 and TCP header views with their
  constants) is not among the sources.  The spec's PacketView names the fields; the
  accessors below read them at their offsets of the IPv4 and TCP wire formats, big endian,
  with the result widths of the Go accessors (uint8, uint16, uint32).
\<close>

definition IPv4MinimumSize :: nat where
  "IPv4MinimumSize = 20"

definition TCPMinimumSize :: nat where
  "TCPMinimumSize = 20"

definition IPv4ProtocolNumber :: "32 word" where
  "IPv4ProtocolNumber = 0x0800"

definition TCPProtocolNumber :: byte where
  "TCPProtocolNumber = 6"

definition IPv4FlagMoreFragments :: byte where
  "IPv4FlagMoreFragments = 1"

definition IPv4FlagDontFragment :: byte where
  "IPv4FlagDontFragment = 2"

definition TCPFlagFin :: byte where "TCPFlagFin = 1"
definition TCPFlagSyn :: byte where "TCPFlagSyn = 2"
definition TCPFlagRst :: byte where "TCPFlagRst = 4"
definition TCPFlagPsh :: byte where "TCPFlagPsh = 8"
definition TCPFlagAck :: byte where "TCPFlagAck = 16"
definition TCPFlagUrg :: byte where "TCPFlagUrg = 32"
definition TCPFlagEce :: byte where "TCPFlagEce = 64"
definition TCPFlagCwr :: byte where "TCPFlagCwr = 128"

definition be16 :: "bytes \<Rightarrow> nat \<Rightarrow> 16 word" where
  "be16 b off = push_bit 8 (ucast (b ! off)) OR ucast (b ! (off + 1))"

definition be32 :: "bytes \<Rightarrow> nat \<Rightarrow> 32 word" where
  "be32 b off = push_bit 24 (ucast (b ! off)) OR push_bit 16 (ucast (b ! (off + 1)))
     OR push_bit 8 (ucast (b ! (off + 2))) OR ucast (b ! (off + 3))"

definition putBe16 :: "bytes \<Rightarrow> nat \<Rightarrow> 16 word \<Rightarrow> bytes" where
  "putBe16 b off v = b[off := ucast (drop_bit 8 v), off + 1 := ucast v]"

definition HeaderLength :: "bytes \<Rightarrow> byte" where
  "HeaderLength b = (b ! 0 AND 0x0F) * 4"

definition TOS :: "bytes \<Rightarrow> byte" where
  "TOS b = b ! 1"

definition TotalLength :: "bytes \<Rightarrow> 16 word" where
  "TotalLength b = be16 b 2"

definition SetTotalLength :: "bytes \<Rightarrow> 16 word \<Rightarrow> bytes" where
  "SetTotalLength b v = putBe16 b 2 v"

definition IPv4Flags :: "bytes \<Rightarrow> byte" where
  "IPv4Flags b = ucast (drop_bit 13 (be16 b 6))"

definition FragmentOffset :: "bytes \<Rightarrow> 16 word" where
  "FragmentOffset b = push_bit 3 (be16 b 6)"

definition TTL :: "bytes \<Rightarrow> byte" where
  "TTL b = b ! 8"

definition Protocol :: "bytes \<Rightarrow> byte" where
  "Protocol b = b ! 9"

definition SourceAddress :: "bytes \<Rightarrow> bytes" where
  "SourceAddress b = take 4 (drop 12 b)"

definition DestinationAddress :: "bytes \<Rightarrow> bytes" where
  "DestinationAddress b = take 4 (drop 16 b)"

definition SourcePort :: "bytes \<Rightarrow> 16 word" where
  "SourcePort b = be16 b 0"

definition DestinationPort :: "bytes \<Rightarrow> 16 word" where
  "DestinationPort b = be16 b 2"

definition SequenceNumber :: "bytes \<Rightarrow> 32 word" where
  "SequenceNumber b = be32 b 4"

definition AckNumber :: "bytes \<Rightarrow> 32 word" where
  "AckNumber b = be32 b 8"

definition DataOffset :: "bytes \<Rightarrow> byte" where
  "DataOffset b = drop_bit 4 (b ! 12) * 4"

definition TCPFlags :: "bytes \<Rightarrow> byte" where
  "TCPFlags b = b ! 13"

definition SetFlags :: "bytes \<Rightarrow> byte \<Rightarrow> bytes" where
  "SetFlags b v = b[13 := v]"

subsection \<open>Packets, staged packets, buckets\<close>

text \<open>
  Modelled from the spec: the packet buffer type is declared outside the sources.  Of a
  packet the dispatcher uses the data bytes (from the IPv4 header on), the flag that the
  receive checksum has been validated, and the reference count.
\<close>

record PacketBuffer =
  pdata :: bytes
  RXChecksumValidated :: bool
  refs :: nat

definition IncRef :: "PacketBuffer \<Rightarrow> PacketBuffer" where
  "IncRef p = p\<lparr>refs := refs p + 1\<rparr>"

datatype panic = NilDereference | IndexOutOfRange

text \<open>
  A \<open>groPacket\<close>.  The embedded \<open>groPacketEntry\<close> is the pair of links
  \<open>entry_next\<close> and \<open>entry_prev\<close>; \<open>None\<close> is the nil pointer, the nil packet and
  the nil endpoint.  Times are nanoseconds, the zero time being 0.
\<close>

record groPacket =
  entry_next :: "nat option"
  entry_prev :: "nat option"
  pkt :: "PacketBuffer option"
  ipHdr :: bytes
  tcpHdr :: bytes
  created :: int
  ep :: "nat option"
  idx :: nat

definition zeroGroPacket :: groPacket where
  "zeroGroPacket = \<lparr>entry_next = None, entry_prev = None, pkt = None, ipHdr = [],
     tcpHdr = [], created = 0, ep = None, idx = 0\<rparr>"

record groPacketList =
  list_head :: "nat option"
  list_tail :: "nat option"

record groBucket =
  count :: int
  packets :: groPacketList
  packetsPrealloc :: "nat \<Rightarrow> groPacket"
  allocIdxs :: "nat \<Rightarrow> nat"

record groDispatcher =
  intervalNS :: int
  buckets :: "nat \<Rightarrow> groBucket"

type_synonym delivery = "nat \<times> PacketBuffer option"

subsection \<open>The intrusive list\<close>

text \<open>
  Modelled from the spec: \<open>groPacketList\<close> and \<open>groPacketEntry\<close> are generated from the
  intrusive list template and are not among the sources.  The spec describes a doubly linked
  list ordered by arrival whose front is the oldest entry; \<open>Front\<close>, \<open>Next\<close>,
  \<open>PushBack\<close> and \<open>Remove\<close> are those of such a list with head and tail pointers.
\<close>

definition Front :: "groBucket \<Rightarrow> nat option" where
  "Front gb = list_head (packets gb)"

definition Next :: "groBucket \<Rightarrow> nat \<Rightarrow> nat option" where
  "Next gb e = entry_next (packetsPrealloc gb e)"

definition PushBack :: "groBucket \<Rightarrow> nat \<Rightarrow> groBucket" where
  "PushBack gb e =
     (let l = packets gb;
          s1 = (packetsPrealloc gb)(e := (packetsPrealloc gb e)
                  \<lparr>entry_next := None, entry_prev := list_tail l\<rparr>)
      in case list_tail l of
           Some t \<Rightarrow> gb\<lparr>packets := l\<lparr>list_tail := Some e\<rparr>,
                        packetsPrealloc := s1(t := (s1 t)\<lparr>entry_next := Some e\<rparr>)\<rparr>
         | None \<Rightarrow> gb\<lparr>packets := l\<lparr>list_head := Some e, list_tail := Some e\<rparr>,
                      packetsPrealloc := s1\<rparr>)"

definition Remove :: "groBucket \<Rightarrow> nat \<Rightarrow> groBucket" where
  "Remove gb e =
     (let l = packets gb;
          s = packetsPrealloc gb;
          prev = entry_prev (s e);
          nxt = entry_next (s e);
          s1 = (case prev of Some p \<Rightarrow> s(p := (s p)\<lparr>entry_next := nxt\<rparr>) | None \<Rightarrow> s);
          h1 = (case prev of Some p \<Rightarrow> list_head l
                | None \<Rightarrow> if list_head l = Some e then nxt else list_head l);
          s2 = (case nxt of Some n \<Rightarrow> s1(n := (s1 n)\<lparr>entry_prev := prev\<rparr>) | None \<Rightarrow> s1);
          t1 = (case nxt of Some n \<Rightarrow> list_tail l
                | None \<Rightarrow> if list_tail l = Some e then prev else list_tail l);
          s3 = s2(e := (s2 e)\<lparr>entry_next := None, entry_prev := None\<rparr>)
      in gb\<lparr>packets := \<lparr>list_head = h1, list_tail = t1\<rparr>, packetsPrealloc := s3\<rparr>)"

subsection \<open>Bucket operations\<close>

definition full :: "groBucket \<Rightarrow> bool" where
  "full gb = (count gb = int groBucketSize)"

text \<open>
  \<open>insert\<close>: the struct literal assigned to the slot names neither the links nor
  \<open>idx\<close>, so they take their zero values.  Indexing an array outside \<open>0..<8\<close> panics.
\<close>

definition insert_pkt ::
  "groBucket \<Rightarrow> PacketBuffer option \<Rightarrow> bytes \<Rightarrow> bytes \<Rightarrow> nat \<Rightarrow> int \<Rightarrow> panic + groBucket" where
  "insert_pkt gb p ip tcp e now =
     (if count gb < 0 \<or> int groBucketSize \<le> count gb then Inl IndexOutOfRange
      else let slot = allocIdxs gb (nat (count gb)) in
        if groBucketSize \<le> slot then Inl IndexOutOfRange
        else Inr (PushBack
               (gb\<lparr>count := count gb + 1,
                   packetsPrealloc := (packetsPrealloc gb)(slot :=
                      \<lparr>entry_next = None, entry_prev = None, pkt = p, ipHdr = ip,
                       tcpHdr = tcp, created = now, ep = Some e, idx = 0\<rparr>)\<rparr>)
               slot))"

definition removeOne :: "groBucket \<Rightarrow> nat \<Rightarrow> panic + groBucket" where
  "removeOne gb e =
     (let gb1 = Remove gb e; c = count gb - 1 in
      if c < 0 \<or> int groBucketSize \<le> c then Inl IndexOutOfRange
      else Inr (gb1\<lparr>count := c,
                    allocIdxs := (allocIdxs gb1)(nat c := idx (packetsPrealloc gb1 e)),
                    packetsPrealloc := (packetsPrealloc gb1)(e := zeroGroPacket)\<rparr>))"

definition removeOldest :: "groBucket \<Rightarrow> panic + (PacketBuffer option \<times> groBucket)" where
  "removeOldest gb =
     (case Front gb of
        None \<Rightarrow> Inl NilDereference
      | Some e \<Rightarrow>
          (let gb1 = Remove gb e; c = count gb - 1 in
           if c < 0 \<or> int groBucketSize \<le> c then Inl IndexOutOfRange
           else Inr (pkt (packetsPrealloc gb1 e),
                     gb1\<lparr>count := c,
                         allocIdxs := (allocIdxs gb1)(nat c := idx (packetsPrealloc gb1 e)),
                         packetsPrealloc := (packetsPrealloc gb1)(e := zeroGroPacket)\<rparr>)))"

definition payloadSize :: "groPacket \<Rightarrow> 16 word" where
  "payloadSize pk = TotalLength (ipHdr pk) - 20 - ucast (DataOffset (tcpHdr pk))"

subsection \<open>Looking up the staged packet of a flow\<close>

datatype groMatch = NoMatch | MatchMergeable | MatchFlushRequired

text \<open>
  The loop of \<open>findGROPacket\<close> that compares the TCP options byte by byte, from index
  \<open>i\<close> up to the data offset \<open>n\<close>; the result is whether a byte differs.  Reading a
  slice beyond its length panics.
\<close>

function optionsDiffer :: "bytes \<Rightarrow> bytes \<Rightarrow> nat \<Rightarrow> nat \<Rightarrow> panic + bool" where
  "optionsDiffer tcp gtcp i n =
     (if i < n then
        (if length tcp \<le> i \<or> length gtcp \<le> i then Inl IndexOutOfRange
         else if tcp ! i \<noteq> gtcp ! i then Inr True
         else optionsDiffer tcp gtcp (i + 1) n)
      else Inr False)"
  by pat_completeness auto
termination
  by (relation "measure (\<lambda>(tcp, gtcp, i, n). n - i)") auto

declare optionsDiffer.simps [simp del]

text \<open>
  One iteration of the loop of \<open>findGROPacket\<close> on the staged packet \<open>g\<close>:
  \<open>NoMatch\<close> is \<open>continue\<close>, \<open>MatchFlushRequired\<close> is \<open>return groPkt, true\<close> and
  \<open>MatchMergeable\<close> is \<open>return groPkt, false\<close>.  The candidate's headers have been pulled
  up by the caller; the headers of a zero-valued \<open>groPacket\<close> are nil slices, and
  reading a field of them panics, as does asking a nil packet for its data.
\<close>

definition matchGROPacket :: "bytes \<Rightarrow> bytes \<Rightarrow> groPacket \<Rightarrow> panic + groMatch" where
  "matchGROPacket ip tcp g =
     (if length (ipHdr g) < IPv4MinimumSize \<or> length (tcpHdr g) < TCPMinimumSize
      then Inl IndexOutOfRange
      else if SourceAddress ip \<noteq> SourceAddress (ipHdr g)
              \<or> DestinationAddress ip \<noteq> DestinationAddress (ipHdr g) then Inr NoMatch
      else if SourcePort tcp \<noteq> SourcePort (tcpHdr g)
              \<or> DestinationPort tcp \<noteq> DestinationPort (tcpHdr g) then Inr NoMatch
      else if TTL ip \<noteq> TTL (ipHdr g) \<or> TOS ip \<noteq> TOS (ipHdr g) then Inr MatchFlushRequired
      else
        (let flags = TCPFlags tcp;
             groPktFlags = TCPFlags (tcpHdr g);
             dataOff = DataOffset tcp
         in if flags AND TCPFlagCwr \<noteq> 0
               \<or> (flags XOR groPktFlags) AND NOT (TCPFlagCwr OR TCPFlagFin OR TCPFlagPsh) \<noteq> 0
               \<or> AckNumber tcp \<noteq> AckNumber (tcpHdr g)
               \<or> dataOff \<noteq> DataOffset (tcpHdr g)
               \<or> SequenceNumber (tcpHdr g) + ucast (payloadSize g) \<noteq> SequenceNumber tcp
            then Inr MatchFlushRequired
            else
              (case optionsDiffer tcp (tcpHdr g) TCPMinimumSize (unat dataOff) of
                 Inl e \<Rightarrow> Inl e
               | Inr True \<Rightarrow> Inr MatchFlushRequired
               | Inr False \<Rightarrow>
                   (case pkt g of
                      None \<Rightarrow> Inl NilDereference
                    | Some gp \<Rightarrow>
                        if groMaxPacketSize \<le> int (unat (TotalLength ip)) - int IPv4MinimumSize
                             - int (unat dataOff) + int (length (pdata gp))
                        then Inr MatchFlushRequired
                        else Inr MatchMergeable))))"

text \<open>
  The loop over the bucket's list, from the element \<open>cur\<close> on.  It follows the
  \<open>next\<close> links until nil and need not return when they form a cycle.
\<close>

partial_function (option) findGROPacket_from ::
  "nat option \<Rightarrow> groBucket \<Rightarrow> bytes \<Rightarrow> bytes \<Rightarrow> (panic + nat option \<times> bool) option" where
  "findGROPacket_from cur bucket ip tcp =
     (case cur of
        None \<Rightarrow> Some (Inr (None, False))
      | Some g \<Rightarrow>
          if matchGROPacket ip tcp (packetsPrealloc bucket g) = Inr NoMatch
          then findGROPacket_from (Next bucket g) bucket ip tcp
          else Some (case matchGROPacket ip tcp (packetsPrealloc bucket g) of
                       Inl e \<Rightarrow> Inl e
                     | Inr m \<Rightarrow> Inr (Some g, m = MatchFlushRequired)))"

declare findGROPacket_from.simps [code]

definition findGROPacket ::
  "groBucket \<Rightarrow> bytes \<Rightarrow> bytes \<Rightarrow> (panic + nat option \<times> bool) option" where
  "findGROPacket bucket ip tcp = findGROPacket_from (Front bucket) bucket ip tcp"

definition bucketForPacket :: "bytes \<Rightarrow> bytes \<Rightarrow> nat" where
  "bucketForPacket ip tcp =
     sum_list (map unat (SourceAddress ip)) + sum_list (map unat (DestinationAddress ip))
       + unat (SourcePort tcp) + unat (DestinationPort tcp)"

subsection \<open>dispatch\<close>

text \<open>
  The merge branch of \<open>dispatch\<close>: the candidate's data after its headers is appended to
  the staged packet's data, the candidate's FIN and PSH are added to the stored flags and its
  payload size to the stored total length.  The stored headers are views of the staged
  packet's buffer, so the two header writes show in all of them.
\<close>

definition mergePacket ::
  "groPacket \<Rightarrow> PacketBuffer \<Rightarrow> byte \<Rightarrow> byte \<Rightarrow> 16 word \<Rightarrow> panic + groPacket" where
  "mergePacket g p dataOff flags tcpPayloadSize =
     (case pkt g of
        None \<Rightarrow> Inl NilDereference
      | Some gp \<Rightarrow>
          (let buf = drop (IPv4MinimumSize + unat dataOff) (pdata p);
               fl = TCPFlags (tcpHdr g) OR (flags AND (TCPFlagFin OR TCPFlagPsh));
               tl = TotalLength (ipHdr g) + tcpPayloadSize
           in Inr (g\<lparr>pkt := Some (gp\<lparr>pdata :=
                         SetTotalLength ((pdata gp @ buf)[IPv4MinimumSize + 13 := fl]) tl\<rparr>),
                     ipHdr := SetTotalLength ((ipHdr g)[IPv4MinimumSize + 13 := fl]) tl,
                     tcpHdr := SetFlags (tcpHdr g) fl\<rparr>)))"

text \<open>
  The first \<open>if\<close> after the lookup.  The result is the bucket, the new value of
  \<open>groPkt\<close>, the new value of \<open>pkt\<close> and the packets handed to the endpoint.
\<close>

definition applyMatch ::
  "groBucket \<Rightarrow> nat option \<Rightarrow> bool \<Rightarrow> PacketBuffer \<Rightarrow> bytes \<Rightarrow> bytes \<Rightarrow> nat
     \<Rightarrow> panic + (groBucket \<times> nat option \<times> PacketBuffer option \<times> delivery list)" where
  "applyMatch bucket groPkt flushGROPkt p ip tcp e =
     (if flushGROPkt then
        (case groPkt of
           None \<Rightarrow> Inl NilDereference
         | Some g \<Rightarrow>
             (case removeOne bucket g of
                Inl x \<Rightarrow> Inl x
              | Inr b1 \<Rightarrow> Inr (b1, None, Some p, [(e, pkt (packetsPrealloc bucket g))])))
      else
        (case groPkt of
           Some g \<Rightarrow>
             (case mergePacket (packetsPrealloc bucket g) p (DataOffset tcp) (TCPFlags tcp)
                     (TotalLength ip - 20 - ucast (DataOffset tcp)) of
                Inl x \<Rightarrow> Inl x
              | Inr g' \<Rightarrow>
                  Inr (bucket\<lparr>packetsPrealloc := (packetsPrealloc bucket)(g := g')\<rparr>,
                       Some g, None, []))
         | None \<Rightarrow> Inr (bucket, None, Some p, [])))"

definition flushDecision :: "bytes \<Rightarrow> bytes \<Rightarrow> 32 word \<Rightarrow> bool" where
  "flushDecision ip tcp mtu =
     (ucast (TotalLength ip) \<noteq> mtu
      \<or> TCPFlags tcp AND (TCPFlagUrg OR TCPFlagPsh OR TCPFlagRst OR TCPFlagSyn OR TCPFlagFin) \<noteq> 0)"

text \<open>The \<open>switch\<close> at the end of \<open>dispatch\<close>.\<close>

definition applyFlush ::
  "bool \<Rightarrow> groBucket \<Rightarrow> nat option \<Rightarrow> PacketBuffer option \<Rightarrow> bytes \<Rightarrow> bytes \<Rightarrow> nat \<Rightarrow> int
     \<Rightarrow> panic + (groBucket \<times> delivery list)" where
  "applyFlush fl bucket groPkt p ip tcp e now =
     (case groPkt of
        Some g \<Rightarrow>
          if fl then
            (case removeOne bucket g of
               Inl x \<Rightarrow> Inl x
             | Inr b1 \<Rightarrow> Inr (b1, [(e, pkt (packetsPrealloc bucket g))]))
          else Inr (bucket, [])
      | None \<Rightarrow>
          if fl then Inr (bucket, [(e, p)])
          else
            (case (if full bucket then
                     (case removeOldest bucket of
                        Inl x \<Rightarrow> Inl x
                      | Inr (old, b1) \<Rightarrow> Inr (b1, [(e, old)]))
                   else Inr (bucket, [])) of
               Inl x \<Rightarrow> Inl x
             | Inr (b1, out) \<Rightarrow>
                 (case p of
                    None \<Rightarrow> Inl NilDereference
                  | Some q \<Rightarrow>
                      (case insert_pkt b1 (Some (IncRef q)) ip tcp e now of
                         Inl x \<Rightarrow> Inl x
                       | Inr b2 \<Rightarrow> Inr (b2, out)))))"

text \<open>The part of \<open>dispatch\<close> that runs with the mutex held.\<close>

definition dispatchLocked ::
  "int \<Rightarrow> groDispatcher \<Rightarrow> PacketBuffer \<Rightarrow> bytes \<Rightarrow> bytes \<Rightarrow> nat \<Rightarrow> 32 word
     \<Rightarrow> (panic + groDispatcher \<times> delivery list) option" where
  "dispatchLocked now gd p ip tcp e mtu =
     (let i = bucketForPacket ip tcp AND groNBucketsMask;
          bucket = buckets gd i
      in case findGROPacket bucket ip tcp of
           None \<Rightarrow> None
         | Some (Inl x) \<Rightarrow> Some (Inl x)
         | Some (Inr (groPkt, flushGROPkt)) \<Rightarrow>
             Some (case applyMatch bucket groPkt flushGROPkt p ip tcp e of
                     Inl x \<Rightarrow> Inl x
                   | Inr (b1, groPkt1, p1, out1) \<Rightarrow>
                       (case applyFlush (flushDecision ip tcp mtu) b1 groPkt1 p1 ip tcp e now of
                          Inl x \<Rightarrow> Inl x
                        | Inr (b2, out2) \<Rightarrow>
                            Inr (gd\<lparr>buckets := (buckets gd)(i := b2)\<rparr>, out1 @ out2))))"

text \<open>
  The header checks of \<open>dispatch\<close> before the mutex is taken: \<open>None\<close> when the packet is
  passed along as it is, otherwise the two header views and the packet marked as validated.
  The argument \<open>ck\<close> stands for the three checksum and validity tests of package header,
  which run only on a packet that is not yet marked.
\<close>

definition pullHeaders ::
  "(PacketBuffer \<Rightarrow> bool) \<Rightarrow> PacketBuffer \<Rightarrow> 32 word \<Rightarrow> (bytes \<times> bytes \<times> PacketBuffer) option" where
  "pullHeaders ck p netProto =
     (if netProto \<noteq> IPv4ProtocolNumber then None
      else if length (pdata p) < IPv4MinimumSize + TCPMinimumSize then None
      else
        (let hdrBytes = take (IPv4MinimumSize + TCPMinimumSize) (pdata p);
             ip = hdrBytes
         in if FragmentOffset ip \<noteq> 0 \<or> IPv4Flags ip AND IPv4FlagMoreFragments \<noteq> 0
               \<or> IPv4Flags ip AND IPv4FlagDontFragment = 0 then None
            else if HeaderLength ip \<noteq> 20 \<or> Protocol ip \<noteq> TCPProtocolNumber then None
            else
              (let dataOff = DataOffset (drop IPv4MinimumSize hdrBytes)
               in if dataOff < 20 then None
                  else if length (pdata p) < IPv4MinimumSize + unat dataOff then None
                  else
                    (let tcp = drop IPv4MinimumSize
                                 (take (IPv4MinimumSize + unat dataOff) (pdata p))
                     in if \<not> RXChecksumValidated p \<and> \<not> ck p then None
                        else Some (ip, tcp, p\<lparr>RXChecksumValidated := True\<rparr>)))))"

definition dispatch ::
  "(PacketBuffer \<Rightarrow> bool) \<Rightarrow> int \<Rightarrow> groDispatcher \<Rightarrow> PacketBuffer \<Rightarrow> 32 word \<Rightarrow> nat \<Rightarrow> 32 word
     \<Rightarrow> (panic + groDispatcher \<times> delivery list) option" where
  "dispatch ck now gd p netProto e mtu =
     (if intervalNS gd = 0 then Some (Inr (gd, [(e, Some p)]))
      else case pullHeaders ck p netProto of
             None \<Rightarrow> Some (Inr (gd, [(e, Some p)]))
           | Some (ip, tcp, p') \<Rightarrow> dispatchLocked now gd p' ip tcp e mtu)"

subsection \<open>The flush passes and the interval\<close>

text \<open>
  The inner loop of \<open>flush\<close> from the element \<open>cur\<close> on.  The loop variable is advanced
  with \<open>Next\<close> after \<open>removeOne\<close> has reset the element.
\<close>

function flush_from ::
  "int \<Rightarrow> groBucket \<Rightarrow> delivery list \<Rightarrow> nat option \<Rightarrow> panic + groBucket \<times> delivery list" where
  "flush_from oldTime bucket out cur =
     (case cur of
        None \<Rightarrow> Inr (bucket, out)
      | Some g \<Rightarrow>
          if created (packetsPrealloc bucket g) < oldTime then
            (case ep (packetsPrealloc bucket g) of
               None \<Rightarrow> Inl NilDereference
             | Some en \<Rightarrow>
                 (case removeOne bucket g of
                    Inl x \<Rightarrow> Inl x
                  | Inr b1 \<Rightarrow>
                      flush_from oldTime b1 (out @ [(en, pkt (packetsPrealloc bucket g))])
                        (Next b1 g)))
          else Inr (bucket, out))"
  by pat_completeness auto

termination
  by (relation "measure (\<lambda>(oldTime, bucket, out, cur). case cur of None \<Rightarrow> 0 | Some g \<Rightarrow> 1)")
    (auto simp: removeOne_def Next_def Let_def zeroGroPacket_def split: if_splits)

declare flush_from.simps [simp del]

text \<open>The loop of \<open>flush\<close> over the buckets, from the array indices \<open>idxs\<close>.\<close>

fun flush_buckets ::
  "int \<Rightarrow> nat list \<Rightarrow> groDispatcher \<Rightarrow> delivery list \<Rightarrow> panic + groDispatcher \<times> delivery list" where
  "flush_buckets oldTime [] gd out = Inr (gd, out)"
| "flush_buckets oldTime (i # idxs) gd out =
     (case flush_from oldTime (buckets gd i) out (Front (buckets gd i)) of
        Inl x \<Rightarrow> Inl x
      | Inr (b, out1) \<Rightarrow> flush_buckets oldTime idxs (gd\<lparr>buckets := (buckets gd)(i := b)\<rparr>) out1)"

definition flush :: "int \<Rightarrow> groDispatcher \<Rightarrow> panic + groDispatcher \<times> delivery list" where
  "flush now gd = flush_buckets (now - intervalNS gd) [0..<groNBuckets] gd []"

text \<open>The inner loop of \<open>flushAll\<close>, advanced in the same way.\<close>

function flushAll_from ::
  "groBucket \<Rightarrow> delivery list \<Rightarrow> nat option \<Rightarrow> panic + groBucket \<times> delivery list" where
  "flushAll_from bucket out cur =
     (case cur of
        None \<Rightarrow> Inr (bucket, out)
      | Some g \<Rightarrow>
          (case ep (packetsPrealloc bucket g) of
             None \<Rightarrow> Inl NilDereference
           | Some en \<Rightarrow>
               (case removeOne bucket g of
                  Inl x \<Rightarrow> Inl x
                | Inr b1 \<Rightarrow>
                    flushAll_from b1 (out @ [(en, pkt (packetsPrealloc bucket g))])
                      (Next b1 g))))"
  by pat_completeness auto
termination
  by (relation "measure (\<lambda>(bucket, out, cur). case cur of None \<Rightarrow> 0 | Some g \<Rightarrow> 1)")
    (auto simp: removeOne_def Next_def Let_def zeroGroPacket_def split: if_splits)

declare flushAll_from.simps [simp del]

fun flushAll_buckets ::
  "nat list \<Rightarrow> groDispatcher \<Rightarrow> delivery list \<Rightarrow> panic + groDispatcher \<times> delivery list" where
  "flushAll_buckets [] gd out = Inr (gd, out)"
| "flushAll_buckets (i # idxs) gd out =
     (case flushAll_from (buckets gd i) out (Front (buckets gd i)) of
        Inl x \<Rightarrow> Inl x
      | Inr (b, out1) \<Rightarrow> flushAll_buckets idxs (gd\<lparr>buckets := (buckets gd)(i := b)\<rparr>) out1)"

definition flushAll :: "groDispatcher \<Rightarrow> panic + groDispatcher \<times> delivery list" where
  "flushAll gd = flushAll_buckets [0..<groNBuckets] gd []"

text \<open>
  \<open>init\<close> stores the interval and numbers the slots and the free-slot stack of every
  bucket; everything else has its zero value.
\<close>

definition init :: "int \<Rightarrow> groDispatcher" where
  "init interval =
     \<lparr>intervalNS = interval,
      buckets = (\<lambda>i. \<lparr>count = 0,
                       packets = \<lparr>list_head = None, list_tail = None\<rparr>,
                       packetsPrealloc = (\<lambda>j. zeroGroPacket\<lparr>idx := j\<rparr>),
                       allocIdxs = (\<lambda>j. j)\<rparr>)\<rparr>"

definition getInterval :: "groDispatcher \<Rightarrow> int" where
  "getInterval gd = intervalNS gd"

text \<open>\<open>setInterval\<close> stores the interval; the signal it sends wakes the goroutine below.\<close>

definition setInterval :: "int \<Rightarrow> groDispatcher \<Rightarrow> groDispatcher" where
  "setInterval interval gd = gd\<lparr>intervalNS := interval\<rparr>"

text \<open>
  The goroutine of \<open>start\<close>, one \<open>select\<close> case at a time: on the signal of a new
  interval it reloads the interval and, when that is 0, flushes everything; on a tick it
  runs \<open>flush\<close>.
\<close>

definition start_newInterval :: "groDispatcher \<Rightarrow> panic + groDispatcher \<times> delivery list" where
  "start_newInterval gd = (if intervalNS gd = 0 then flushAll gd else Inr (gd, []))"

definition start_tick :: "int \<Rightarrow> groDispatcher \<Rightarrow> panic + groDispatcher \<times> delivery list" where
  "start_tick now gd = flush now gd"

subsection \<open>Walking a bucket, and example segments\<close>

text \<open>
  The slots met by following the list of a bucket from its front for at most \<open>n\<close>
  steps, as the loop of \<open>String\<close> meets them.
\<close>

fun walk :: "nat \<Rightarrow> groBucket \<Rightarrow> nat option \<Rightarrow> nat list" where
  "walk 0 gb cur = []"
| "walk (Suc n) gb cur = (case cur of None \<Rightarrow> [] | Some g \<Rightarrow> g # walk n gb (Next gb g))"

definition staged :: "groBucket \<Rightarrow> PacketBuffer option list" where
  "staged gb = map (\<lambda>g. pkt (packetsPrealloc gb g)) (walk (Suc groBucketSize) gb (Front gb))"

text \<open>
  An IPv4 TCP segment without IP or TCP options, with DF set, from \<open>10.0.0.a\<close> port
  \<open>0x3000\<close> to \<open>10.0.0.2\<close> port 80, with sequence number \<open>sq\<close>, acknowledgement
  number 1, the given TCP flags and \<open>n\<close> zero bytes of payload; its checksum is marked
  as validated by the link.
\<close>

definition segment :: "byte \<Rightarrow> 32 word \<Rightarrow> byte \<Rightarrow> nat \<Rightarrow> PacketBuffer" where
  "segment a sq fl n =
     \<lparr>pdata =
        [0x45, 0, of_nat ((40 + n) div 256), of_nat (40 + n), 0, 0, 0x40, 0, 64, 6, 0, 0,
         10, 0, 0, a, 10, 0, 0, 2]
        @ [0x30, 0, 0, 80,
           ucast (drop_bit 24 sq), ucast (drop_bit 16 sq), ucast (drop_bit 8 sq), ucast sq,
           0, 0, 0, 1, 0x50, fl, 0xFF, 0xFF, 0, 0, 0, 0]
        @ replicate n 0,
      RXChecksumValidated = True, refs = 1\<rparr>"

definition checksumsOK :: "PacketBuffer \<Rightarrow> bool" where
  "checksumsOK p = True"

text \<open>The two header views that \<open>dispatch\<close> takes of a segment without TCP options.\<close>

definition ipOf :: "PacketBuffer \<Rightarrow> bytes" where
  "ipOf p = take 40 (pdata p)"

definition tcpOf :: "PacketBuffer \<Rightarrow> bytes" where
  "tcpOf p = drop 20 (take 40 (pdata p))"

text \<open>
  The dispatcher after a call, and what the call handed to the endpoints; a call that
  panics or does not return leaves \<open>init 0\<close> and \<open>None\<close>.
\<close>

definition stateOf :: "(panic + groDispatcher \<times> delivery list) option \<Rightarrow> groDispatcher" where
  "stateOf r = (case r of Some (Inr (gd, out)) \<Rightarrow> gd | _ \<Rightarrow> init 0)"

definition deliveredBy ::
  "(panic + groDispatcher \<times> delivery list) option \<Rightarrow> delivery list option" where
  "deliveredBy r = (case r of Some (Inr (gd, out)) \<Rightarrow> Some out | _ \<Rightarrow> None)"

text \<open>
  A dispatcher with interval 10ns after one segment of the flow from \<open>10.0.0.1\<close>, and
  after a further segment of the flow from \<open>10.0.0.9\<close>, which hashes to the same bucket 7.
  Both segments are as long as the MTU of 44 and carry no flag, so both are staged.
\<close>

definition oneStaged :: groDispatcher where
  "oneStaged =
     stateOf (dispatch checksumsOK 1000 (init 10) (segment 1 100 0 4) IPv4ProtocolNumber 7 44)"

definition twoStaged :: groDispatcher where
  "twoStaged =
     stateOf (dispatch checksumsOK 2000 oneStaged (segment 9 100 0 4) IPv4ProtocolNumber 7 44)"

subsection \<open>The entries on a bucket's list, and the reachable dispatchers\<close>

text \<open>
  The slots met by following the \<open>next\<close> links from \<open>cur\<close>; from the front of the
  list these are the entries the bucket holds.
\<close>

inductive_set reachFrom :: "groBucket \<Rightarrow> nat option \<Rightarrow> nat set"
  for gb :: groBucket and cur :: "nat option" where
  start: "cur = Some s \<Longrightarrow> s \<in> reachFrom gb cur"
| step: "s \<in> reachFrom gb cur \<Longrightarrow> Next gb s = Some t \<Longrightarrow> t \<in> reachFrom gb cur"

definition onList :: "groBucket \<Rightarrow> nat set" where
  "onList gb = reachFrom gb (Front gb)"

text \<open>The flow of a staged packet: source and destination address and port.\<close>

definition flowOf :: "groPacket \<Rightarrow> bytes \<times> bytes \<times> 16 word \<times> 16 word" where
  "flowOf g = (SourceAddress (ipHdr g), DestinationAddress (ipHdr g),
               SourcePort (tcpHdr g), DestinationPort (tcpHdr g))"




subsection \<open>The matcher's conditions in the words of the specification\<close>

text \<open>
  The conditions under which the specification lets a segment with headers \<open>ip\<close> and
  \<open>tcp\<close> merge into the staged packet \<open>g\<close> of its flow.  Bits 0, 3 and 7 of the TCP
  flags are FIN, PSH and CWR.  \<open>mergeableAsClaimed\<close> bounds the sum of the two payload
  sizes, \<open>mergeable\<close> bounds the candidate's payload size plus the size of the staged
  packet's data, which includes its headers.
\<close>

definition sameFlow :: "bytes \<Rightarrow> bytes \<Rightarrow> groPacket \<Rightarrow> bool" where
  "sameFlow ip tcp g =
     (SourceAddress ip = SourceAddress (ipHdr g)
      \<and> DestinationAddress ip = DestinationAddress (ipHdr g)
      \<and> SourcePort tcp = SourcePort (tcpHdr g)
      \<and> DestinationPort tcp = DestinationPort (tcpHdr g))"

definition headersAgree :: "bytes \<Rightarrow> bytes \<Rightarrow> groPacket \<Rightarrow> bool" where
  "headersAgree ip tcp g =
     (TTL ip = TTL (ipHdr g) \<and> TOS ip = TOS (ipHdr g)
      \<and> \<not> bit (TCPFlags tcp) 7
      \<and> (\<forall>i \<in> {1, 2, 4, 5, 6}. bit (TCPFlags tcp) i = bit (TCPFlags (tcpHdr g)) i)
      \<and> AckNumber tcp = AckNumber (tcpHdr g)
      \<and> DataOffset tcp = DataOffset (tcpHdr g)
      \<and> SequenceNumber (tcpHdr g) + ucast (payloadSize g) = SequenceNumber tcp
      \<and> drop TCPMinimumSize (take (unat (DataOffset tcp)) tcp)
          = drop TCPMinimumSize (take (unat (DataOffset (tcpHdr g))) (tcpHdr g)))"

definition candidatePayload :: "bytes \<Rightarrow> bytes \<Rightarrow> int" where
  "candidatePayload ip tcp =
     int (unat (TotalLength ip)) - int IPv4MinimumSize - int (unat (DataOffset tcp))"

definition mergeableAsClaimed :: "bytes \<Rightarrow> bytes \<Rightarrow> groPacket \<Rightarrow> bool" where
  "mergeableAsClaimed ip tcp g =
     (headersAgree ip tcp g
      \<and> int (unat (payloadSize g)) + candidatePayload ip tcp < groMaxPacketSize)"

definition mergeable :: "bytes \<Rightarrow> bytes \<Rightarrow> groPacket \<Rightarrow> bool" where
  "mergeable ip tcp g =
     (headersAgree ip tcp g
      \<and> (case pkt g of
            None \<Rightarrow> False
          | Some gp \<Rightarrow> int (length (pdata gp)) + candidatePayload ip tcp < groMaxPacketSize))"


text \<open>
  A staged packet of 64000 payload bytes, its headers and total length as
  \<open>dispatch\<close> keeps them.
\<close>

definition bigEntry :: groPacket where
  "bigEntry =
     \<lparr>entry_next = None, entry_prev = None, pkt = Some (segment 1 100 0 64000),
      ipHdr = ipOf (segment 1 100 0 64000), tcpHdr = tcpOf (segment 1 100 0 64000),
      created = 1000, ep = Some 7, idx = 0\<rparr>"

subsection \<open>Invariants of the buckets\<close>

text \<open>
  An entry holds headers when its two header slices are at least as long as the minimal
  IPv4 and TCP headers, as they are after \<open>insert\<close>; the slices of a reset entry are nil
  and have no address or port to read.
\<close>

definition hasHeaders :: "groPacket \<Rightarrow> bool" where
  "hasHeaders g = (IPv4MinimumSize \<le> length (ipHdr g) \<and> TCPMinimumSize \<le> length (tcpHdr g))"


text \<open>
  The bucket \<open>gb'\<close> has no entry on its list and no headers in a slot that \<open>gb\<close> does
  not have: what removing entries from \<open>gb\<close> leaves.
\<close>

definition subBucket :: "groBucket \<Rightarrow> groBucket \<Rightarrow> bool" where
  "subBucket gb gb' =
     (onList gb' \<subseteq> onList gb
      \<and> (\<forall>s. hasHeaders (packetsPrealloc gb' s) \<longrightarrow>
             hasHeaders (packetsPrealloc gb s)
             \<and> flowOf (packetsPrealloc gb' s) = flowOf (packetsPrealloc gb s)))"




subsection \<open>Further example dispatchers\<close>







section \<open>Properties\<close>

lemmas hdr_defs = be16_def be32_def putBe16_def HeaderLength_def TOS_def TotalLength_def
  SetTotalLength_def IPv4Flags_def FragmentOffset_def TTL_def Protocol_def SourceAddress_def
  DestinationAddress_def SourcePort_def DestinationPort_def SequenceNumber_def AckNumber_def
  DataOffset_def TCPFlags_def SetFlags_def IPv4MinimumSize_def TCPMinimumSize_def
  IPv4ProtocolNumber_def TCPProtocolNumber_def IPv4FlagMoreFragments_def
  IPv4FlagDontFragment_def TCPFlagFin_def TCPFlagSyn_def TCPFlagRst_def TCPFlagPsh_def
  TCPFlagAck_def TCPFlagUrg_def TCPFlagEce_def TCPFlagCwr_def

lemmas gro_defs = groNBuckets_def groNBucketsMask_def groBucketSize_def groMaxPacketSize_def
  Front_def Next_def PushBack_def Remove_def full_def insert_pkt_def removeOne_def
  removeOldest_def payloadSize_def matchGROPacket_def findGROPacket_def bucketForPacket_def
  mergePacket_def applyMatch_def flushDecision_def applyFlush_def dispatchLocked_def
  pullHeaders_def dispatch_def flush_def flushAll_def init_def getInterval_def setInterval_def
  zeroGroPacket_def IncRef_def staged_def segment_def start_newInterval_def start_tick_def
  findGROPacket_from.simps optionsDiffer.simps flush_from.simps flushAll_from.simps

lemmas ex_defs = checksumsOK_def stateOf_def deliveredBy_def ipOf_def tcpOf_def
  oneStaged_def twoStaged_def

lemmas all_defs = hdr_defs gro_defs ex_defs Let_def

lemma upt_groNBuckets: "[0..<8] = [0, 1, 2, 3, 4, 5, 6, 7]"
  by code_simp

lemma walk_numeral:
  "walk (numeral k) gb cur =
     (case cur of None \<Rightarrow> [] | Some g \<Rightarrow> g # walk (pred_numeral k) gb (Next gb g))"
  by (simp add: numeral_eq_Suc)

subsection \<open>The list of a bucket\<close>

lemma reachFrom_None: "reachFrom gb None = {}"
proof -
  have "s \<in> reachFrom gb None \<Longrightarrow> False" for s
    by (induction rule: reachFrom.induct) simp_all
  then show ?thesis by auto
qed

lemma reachFrom_Next_subset: "reachFrom gb (Next gb g) \<subseteq> reachFrom gb (Some g)"
proof
  fix s assume "s \<in> reachFrom gb (Next gb g)"
  then show "s \<in> reachFrom gb (Some g)"
  proof (induction rule: reachFrom.induct)
    case (start s)
    then show ?case by (metis reachFrom.start reachFrom.step)
  next
    case (step s t)
    then show ?case by (auto intro: reachFrom.step)
  qed
qed

lemma reachFrom_Some: "reachFrom gb (Some g) = insert g (reachFrom gb (Next gb g))"
proof
  show "reachFrom gb (Some g) \<subseteq> insert g (reachFrom gb (Next gb g))"
  proof
    fix s assume "s \<in> reachFrom gb (Some g)"
    then show "s \<in> insert g (reachFrom gb (Next gb g))"
    proof (induction rule: reachFrom.induct)
      case (start s)
      then show ?case by simp
    next
      case (step s t)
      then show ?case
        by (metis insert_iff reachFrom.start reachFrom.step)
    qed
  qed
  show "insert g (reachFrom gb (Next gb g)) \<subseteq> reachFrom gb (Some g)"
    using reachFrom_Next_subset [of gb g] by (auto intro: reachFrom.start)
qed

subsection \<open>What findGROPacket returns\<close>

lemma find_from_result_all:
  assumes "findGROPacket_from cur bucket ip tcp = Some r"
  shows "\<forall>a fl. r = Inr (a, fl) \<longrightarrow>
   (a = None \<longrightarrow> \<not> fl \<and> (\<forall>s \<in> reachFrom bucket cur.
          matchGROPacket ip tcp (packetsPrealloc bucket s) = Inr NoMatch)) \<and>
   (\<forall>g. a = Some g \<longrightarrow> g \<in> reachFrom bucket cur \<and>
          matchGROPacket ip tcp (packetsPrealloc bucket g)
            = Inr (if fl then MatchFlushRequired else MatchMergeable))"
  using assms
proof (rule findGROPacket_from.raw_induct [rotated], goal_cases)
  case (1 rec cur bucket ip tcp r)
  show ?case
  proof (cases cur)
    case None
    with 1(2) show ?thesis by (auto simp: reachFrom_None)
  next
    case (Some g)
    show ?thesis
    proof (cases "matchGROPacket ip tcp (packetsPrealloc bucket g) = Inr NoMatch")
      case True
      with 1(2) Some have "rec (Next bucket g) bucket ip tcp = Some r" by simp
      from 1(1) [OF this] True Some show ?thesis
        by (auto simp: reachFrom_Some)
    next
      case False
      show ?thesis
      proof (cases "matchGROPacket ip tcp (packetsPrealloc bucket g)")
        case (Inl x)
        with 1(2) Some False show ?thesis by auto
      next
        case (Inr m)
        with 1(2) Some False show ?thesis
          by (cases m) (auto intro: reachFrom.start)
      qed
    qed
  qed
qed

lemma find_None:
  "findGROPacket bucket ip tcp = Some (Inr (None, fl)) \<Longrightarrow>
     \<not> fl \<and> (\<forall>s \<in> onList bucket.
        matchGROPacket ip tcp (packetsPrealloc bucket s) = Inr NoMatch)"
  using find_from_result_all [of "Front bucket" bucket ip tcp "Inr (None, fl)"]
  by (simp add: findGROPacket_def onList_def)

lemma find_Some:
  "findGROPacket bucket ip tcp = Some (Inr (Some g, fl)) \<Longrightarrow>
     g \<in> onList bucket \<and> matchGROPacket ip tcp (packetsPrealloc bucket g)
            = Inr (if fl then MatchFlushRequired else MatchMergeable)"
  using find_from_result_all [of "Front bucket" bucket ip tcp "Inr (Some g, fl)"]
  by (simp add: findGROPacket_def onList_def)

subsection \<open>The disabled dispatcher\<close>

text \<open>
  Claim C8.  When the stored interval is 0, a call of \<open>dispatch\<close> hands exactly one
  packet to the endpoint, the packet it was given, unchanged, and leaves the dispatcher,
  and so every bucket, as it was.
\<close>

theorem dispatch_disabled:
  "intervalNS gd = 0 \<Longrightarrow>
     dispatch ck now gd p netProto e mtu = Some (Inr (gd, [(e, Some p)]))"
  by (simp add: dispatch_def)

theorem dispatch_disabled_witness:
  "intervalNS (setInterval 0 oneStaged) = 0 \<and>
   dispatch checksumsOK 3000 (setInterval 0 oneStaged) (segment 1 104 0 4) IPv4ProtocolNumber 7 44
     = Some (Inr (setInterval 0 oneStaged, [(7, Some (segment 1 104 0 4))]))"
  using dispatch_disabled [of "setInterval 0 oneStaged" checksumsOK 3000 "segment 1 104 0 4"
      IPv4ProtocolNumber 7 44]
  by (simp add: setInterval_def)




subsection \<open>The entry returned with the flush flag\<close>

text \<open>
  Claim C10.  When \<open>findGROPacket\<close> returns the flush flag set, the entry it returns is
  not nil but one of the entries on the bucket's list, so the branch of \<open>dispatch\<close> that
  delivers and removes that entry does not dereference nil.
\<close>

theorem findGROPacket_flush_entry:
  "findGROPacket bucket ip tcp = Some (Inr (groPkt, True)) \<Longrightarrow>
     (\<exists>g. groPkt = Some g \<and> g \<in> onList bucket)
     \<and> applyMatch bucket groPkt True p ip tcp e \<noteq> Inl NilDereference"
proof (cases groPkt)
  case None
  assume "findGROPacket bucket ip tcp = Some (Inr (groPkt, True))"
  with None find_None [of bucket ip tcp True] show ?thesis by simp
next
  case (Some g)
  assume "findGROPacket bucket ip tcp = Some (Inr (groPkt, True))"
  with Some find_Some [of bucket ip tcp g True] have "g \<in> onList bucket" by simp
  moreover have "applyMatch bucket (Some g) True p ip tcp e \<noteq> Inl NilDereference"
    by (simp add: applyMatch_def removeOne_def Let_def)
  ultimately show ?thesis using Some by simp
qed

theorem findGROPacket_flush_entry_witness:
  "findGROPacket (buckets oneStaged 7) (ipOf (segment 1 200 0 4)) (tcpOf (segment 1 200 0 4))
     = Some (Inr (Some 0, True))
   \<and> (\<exists>g. Some 0 = Some g \<and> g \<in> onList (buckets oneStaged 7))
   \<and> applyMatch (buckets oneStaged 7) (Some 0) True (segment 1 200 0 4)
        (ipOf (segment 1 200 0 4)) (tcpOf (segment 1 200 0 4)) 7 \<noteq> Inl NilDereference"
proof -
  have h: "findGROPacket (buckets oneStaged 7) (ipOf (segment 1 200 0 4))
      (tcpOf (segment 1 200 0 4)) = Some (Inr (Some 0, True))"
    by (simp add: all_defs)
  show ?thesis
    using h findGROPacket_flush_entry [OF h, of "segment 1 200 0 4" 7] by simp
qed

subsection \<open>The flush passes\<close>

text \<open>
  Claim C1, on the code.  The claim says that one pass of \<open>flush\<close> delivers and removes
  every entry of a bucket that is older than the threshold.  With two such entries staged
  in bucket 7, created at 1000 and 2000, a pass at time 1000000000 delivers the first of
  them only and leaves the second on the list.
\<close>

theorem flush_delivers_one_of_two_aged:
  "created (packetsPrealloc (buckets twoStaged 7) 0) < 1000000000 - intervalNS twoStaged
   \<and> created (packetsPrealloc (buckets twoStaged 7) 1) < 1000000000 - intervalNS twoStaged
   \<and> staged (buckets twoStaged 7)
       = [Some (IncRef (segment 1 100 0 4)), Some (IncRef (segment 9 100 0 4))]
   \<and> deliveredBy (Some (flush 1000000000 twoStaged)) = Some [(7, Some (IncRef (segment 1 100 0 4)))]
   \<and> staged (buckets (stateOf (Some (flush 1000000000 twoStaged))) 7)
       = [Some (IncRef (segment 9 100 0 4))]"
  by (simp add: all_defs upt_groNBuckets walk_numeral)

text \<open>
  Claim C2, on the code.  The claim says that \<open>flushAll\<close> empties every bucket, so that
  \<open>setInterval 0\<close> delivers every staged segment.  With two entries staged in bucket 7,
  the goroutine's reaction to \<open>setInterval 0\<close> delivers the first of them only and leaves
  the second on the list.
\<close>

theorem flushAll_delivers_one_of_two:
  "staged (buckets twoStaged 7)
       = [Some (IncRef (segment 1 100 0 4)), Some (IncRef (segment 9 100 0 4))]
   \<and> deliveredBy (Some (start_newInterval (setInterval 0 twoStaged)))
       = Some [(7, Some (IncRef (segment 1 100 0 4)))]
   \<and> staged (buckets (stateOf (Some (start_newInterval (setInterval 0 twoStaged)))) 7)
       = [Some (IncRef (segment 9 100 0 4))]"
  by (simp add: all_defs upt_groNBuckets walk_numeral)

lemmas c3_defs = sameFlow_def headersAgree_def candidatePayload_def mergeableAsClaimed_def
  mergeable_def bigEntry_def
subsection \<open>The matcher\<close>

lemma lt8: "(n::nat) < 8 \<Longrightarrow> n = 7 \<or> n = 6 \<or> n = 5 \<or> n = 4 \<or> n = 3 \<or> n = 2 \<or> n = 1 \<or> n = 0"
  by arith
lemma b128: "bit (128 :: 8 word) n = (n = 7)"
proof (cases "n < 8")
  case True
  from lt8 [OF this] show ?thesis by (elim disjE) simp_all
next
  case False
  then show ?thesis by (auto dest: bit_imp_le_length)
qed
lemma b8: "bit (8 :: 8 word) n = (n = 3)"
proof (cases "n < 8")
  case True
  from lt8 [OF this] show ?thesis by (elim disjE) simp_all
next
  case False
  then show ?thesis by (auto dest: bit_imp_le_length)
qed
lemma masked_eq:
  "((f XOR g) AND NOT m = 0) = (\<forall>n<8. bit m n \<or> bit f n = bit g n)" for f g m :: "8 word"
proof
  assume eq: "(f XOR g) AND NOT m = 0"
  show "\<forall>n<8. bit m n \<or> bit f n = bit g n"
  proof (intro allI impI)
    fix n :: nat assume "n < 8"
    from eq have "\<not> bit ((f XOR g) AND NOT m) n" by simp
    with \<open>n < 8\<close> show "bit m n \<or> bit f n = bit g n"
      by (auto simp: bit_and_iff bit_xor_iff bit_not_iff)
  qed
next
  assume "\<forall>n<8. bit m n \<or> bit f n = bit g n"
  then show "(f XOR g) AND NOT m = 0"
    by (intro bit_word_eqI) (auto simp: bit_and_iff bit_xor_iff bit_not_iff)
qed
lemma b137: "bit (137 :: 8 word) n \<longleftrightarrow> n = 0 \<or> n = 3 \<or> n = 7"
proof (cases "n < 8")
  case True
  from lt8 [OF this] show ?thesis by (elim disjE) simp_all
next
  case False
  then show ?thesis by (auto dest: bit_imp_le_length)
qed
lemma and_128: "(f AND 128 = 0) = (\<not> bit f 7)" for f :: "8 word"
proof
  assume "f AND 128 = 0"
  then have "\<not> bit (f AND 128) 7" by simp
  then show "\<not> bit f 7" by (simp add: bit_and_iff)
next
  assume *: "\<not> bit f 7"
  show "f AND 128 = 0"
  proof (rule bit_word_eqI)
    fix n :: nat
    show "bit (f AND 128) n = bit (0 :: 8 word) n"
      using * by (simp only: bit_and_iff b128) auto
  qed
qed
lemma other_bits:
  "(\<forall>n<8. (n = 0 \<or> n = 3 \<or> n = 7) \<or> P n) = (P 1 \<and> P 2 \<and> P 4 \<and> P 5 \<and> P 6)"
  for P :: "nat \<Rightarrow> bool"
proof
  assume "\<forall>n<8. (n = 0 \<or> n = 3 \<or> n = 7) \<or> P n"
  then have *: "n < 8 \<Longrightarrow> n \<noteq> 0 \<Longrightarrow> n \<noteq> 3 \<Longrightarrow> n \<noteq> 7 \<Longrightarrow> P n" for n by blast
  from * [of 1] * [of 2] * [of 4] * [of 5] * [of 6]
  show "P 1 \<and> P 2 \<and> P 4 \<and> P 5 \<and> P 6" by simp
next
  assume c: "P 1 \<and> P 2 \<and> P 4 \<and> P 5 \<and> P 6"
  show "\<forall>n<8. (n = 0 \<or> n = 3 \<or> n = 7) \<or> P n"
  proof (intro allI impI)
    fix n :: nat assume "n < 8"
    from lt8 [OF this] c show "(n = 0 \<or> n = 3 \<or> n = 7) \<or> P n"
      by (elim disjE) simp_all
  qed
qed
lemma xor_137: "((f XOR g) AND NOT 137 = 0) = (\<forall>i \<in> {1, 2, 4, 5, 6}. bit f i = bit g i)" for f g :: "8 word"
proof -
  have "((f XOR g) AND NOT 137 = 0) = (\<forall>n<8. (n = 0 \<or> n = 3 \<or> n = 7) \<or> bit f n = bit g n)"
    by (simp only: masked_eq b137)
  also have "\<dots> = (\<forall>i \<in> {1, 2, 4, 5, 6}. bit f i = bit g i)"
    by (simp only: other_bits) simp
  finally show ?thesis .
qed

lemma optionsDiffer_eq:
  "n \<le> length tcp \<Longrightarrow> n \<le> length gtcp \<Longrightarrow>
     optionsDiffer tcp gtcp i n = Inr (drop i (take n tcp) \<noteq> drop i (take n gtcp))"
proof (induction tcp gtcp i n rule: optionsDiffer.induct)
  case (1 tcp gtcp i n)
  show ?case
  proof (cases "i < n")
    case False
    then show ?thesis by (simp add: optionsDiffer.simps)
  next
    case True
    with 1(2,3) have li: "i < length (take n tcp)" "i < length (take n gtcp)" by simp_all
    have d1: "drop i (take n tcp) = tcp ! i # drop (i + 1) (take n tcp)"
      using Cons_nth_drop_Suc [OF li(1)] True by simp
    have d2: "drop i (take n gtcp) = gtcp ! i # drop (i + 1) (take n gtcp)"
      using Cons_nth_drop_Suc [OF li(2)] True by simp
    show ?thesis
    proof (cases "tcp ! i = gtcp ! i")
      case False
      with True 1(2,3) show ?thesis
        by (subst optionsDiffer.simps) (simp add: d1 d2)
    next
      case eq: True
      with True 1(2,3) have "optionsDiffer tcp gtcp i n = optionsDiffer tcp gtcp (i + 1) n"
        by (subst optionsDiffer.simps) simp
      also have "\<dots> = Inr (drop (i + 1) (take n tcp) \<noteq> drop (i + 1) (take n gtcp))"
        using 1(1) True 1(2,3) eq by simp
      finally show ?thesis using eq by (simp add: d1 d2)
    qed
  qed
qed

text \<open>
  Claim C3, amended.  For a staged entry whose headers and packet are in place, the
  matcher answers no match exactly when the 4-tuples differ; for the same 4-tuple it
  answers mergeable exactly when TTL and TOS are equal, the candidate's CWR is clear, the
  flags differ in CWR, FIN and PSH only, the ACK numbers and the TCP header lengths are
  equal, the entry's sequence number plus its payload size is the candidate's sequence
  number, the option bytes are identical, and the candidate's payload size plus the size of
  the entry's packet data, headers included, is below \<open>groMaxPacketSize\<close>; otherwise
  it requires a flush.
\<close>

theorem matchGROPacket_classification:
  assumes "IPv4MinimumSize \<le> length (ipHdr g)" and "TCPMinimumSize \<le> length (tcpHdr g)"
    and "unat (DataOffset tcp) \<le> length tcp"
    and "unat (DataOffset (tcpHdr g)) \<le> length (tcpHdr g)"
    and "pkt g \<noteq> None"
  shows "matchGROPacket ip tcp g =
     Inr (if \<not> sameFlow ip tcp g then NoMatch
          else if mergeable ip tcp g then MatchMergeable else MatchFlushRequired)"
proof -
  from assms(5) obtain gp where gp: "pkt g = Some gp" by auto
  have fl: "(TCPFlagCwr OR TCPFlagFin OR TCPFlagPsh) = (137 :: byte)"
    by (simp add: TCPFlagCwr_def TCPFlagFin_def TCPFlagPsh_def)
  have cwr: "(TCPFlags tcp AND TCPFlagCwr = 0) = (\<not> bit (TCPFlags tcp) 7)"
    by (simp only: TCPFlagCwr_def and_128)
  show ?thesis
  proof (cases "sameFlow ip tcp g")
    case False
    with assms(1,2) show ?thesis
      by (auto simp: matchGROPacket_def sameFlow_def)
  next
    case True
    show ?thesis
    proof (cases "DataOffset tcp = DataOffset (tcpHdr g)")
      case False
      with True assms(1,2) show ?thesis
        by (auto simp: matchGROPacket_def sameFlow_def mergeable_def headersAgree_def Let_def)
    next
      case eq: True
      have od: "optionsDiffer tcp (tcpHdr g) TCPMinimumSize (unat (DataOffset tcp))
          = Inr (drop TCPMinimumSize (take (unat (DataOffset tcp)) tcp)
                 \<noteq> drop TCPMinimumSize (take (unat (DataOffset (tcpHdr g))) (tcpHdr g)))"
        using optionsDiffer_eq [of "unat (DataOffset tcp)" tcp "tcpHdr g" TCPMinimumSize]
          assms(3,4) eq by simp
      from True assms(1,2) gp eq show ?thesis
        unfolding matchGROPacket_def mergeable_def headersAgree_def candidatePayload_def
          sameFlow_def Let_def od fl xor_137 cwr
        by (auto simp: not_less split: bool.splits)
    qed
  qed
qed


theorem matchGROPacket_classification_witness:
  "IPv4MinimumSize \<le> length (ipHdr (packetsPrealloc (buckets oneStaged 7) 0))
   \<and> TCPMinimumSize \<le> length (tcpHdr (packetsPrealloc (buckets oneStaged 7) 0))
   \<and> unat (DataOffset (tcpOf (segment 1 104 0 4))) \<le> length (tcpOf (segment 1 104 0 4))
   \<and> unat (DataOffset (tcpHdr (packetsPrealloc (buckets oneStaged 7) 0)))
        \<le> length (tcpHdr (packetsPrealloc (buckets oneStaged 7) 0))
   \<and> pkt (packetsPrealloc (buckets oneStaged 7) 0) \<noteq> None
   \<and> sameFlow (ipOf (segment 1 104 0 4)) (tcpOf (segment 1 104 0 4))
        (packetsPrealloc (buckets oneStaged 7) 0)
   \<and> mergeable (ipOf (segment 1 104 0 4)) (tcpOf (segment 1 104 0 4))
        (packetsPrealloc (buckets oneStaged 7) 0)
   \<and> matchGROPacket (ipOf (segment 1 104 0 4)) (tcpOf (segment 1 104 0 4))
        (packetsPrealloc (buckets oneStaged 7) 0) = Inr MatchMergeable"
proof -
  have h1: "IPv4MinimumSize \<le> length (ipHdr (packetsPrealloc (buckets oneStaged 7) 0))"
    and h2: "TCPMinimumSize \<le> length (tcpHdr (packetsPrealloc (buckets oneStaged 7) 0))"
    and h3: "unat (DataOffset (tcpOf (segment 1 104 0 4))) \<le> length (tcpOf (segment 1 104 0 4))"
    and h4: "unat (DataOffset (tcpHdr (packetsPrealloc (buckets oneStaged 7) 0)))
        \<le> length (tcpHdr (packetsPrealloc (buckets oneStaged 7) 0))"
    and h5: "pkt (packetsPrealloc (buckets oneStaged 7) 0) \<noteq> None"
    by (simp_all add: all_defs)
  have s: "sameFlow (ipOf (segment 1 104 0 4)) (tcpOf (segment 1 104 0 4))
        (packetsPrealloc (buckets oneStaged 7) 0)"
    by (simp add: all_defs c3_defs)
  have m: "mergeable (ipOf (segment 1 104 0 4)) (tcpOf (segment 1 104 0 4))
        (packetsPrealloc (buckets oneStaged 7) 0)"
    by (simp add: all_defs c3_defs)
  show ?thesis
    using h1 h2 h3 h4 h5 s m
      matchGROPacket_classification [OF h1 h2 h3 h4 h5, of "ipOf (segment 1 104 0 4)"]
    by simp
qed

text \<open>
  Claim C3, as stated.  The claim bounds the sum of the entry's and the candidate's payload
  sizes.  For the entry of 64000 payload bytes and the next segment of its flow with 1496
  payload bytes all conditions of the claim hold, the sum being 65496, and the matcher
  still requires a flush, because the entry's packet data with its 40 header bytes and the
  candidate's payload make 65536 bytes.
\<close>

theorem mergeableAsClaimed_counterexample:
  "sameFlow (ipOf (segment 1 64100 0 1496)) (tcpOf (segment 1 64100 0 1496)) bigEntry
   \<and> mergeableAsClaimed (ipOf (segment 1 64100 0 1496)) (tcpOf (segment 1 64100 0 1496)) bigEntry
   \<and> matchGROPacket (ipOf (segment 1 64100 0 1496)) (tcpOf (segment 1 64100 0 1496)) bigEntry
       = Inr MatchFlushRequired"
  by (simp add: all_defs c3_defs)

subsection \<open>The flush decision\<close>



subsection \<open>Removing and inserting entries\<close>

lemma subBucket_refl: "subBucket gb gb"
  by (simp add: subBucket_def)

lemma subBucket_trans: "subBucket a b \<Longrightarrow> subBucket b c \<Longrightarrow> subBucket a c"
  by (auto simp: subBucket_def)





















subsection \<open>The cases of dispatch\<close>



subsection \<open>Merging\<close>








subsection \<open>Invariants of the flush passes and of the reachable dispatchers\<close>






subsection \<open>The headers pulled up by dispatch\<close>


subsection \<open>One entry per flow\<close>






subsection \<open>Staged data below the maximum\<close>






subsection \<open>The links of a bucket\<close>










subsection \<open>Reaching the example dispatchers\<close>



subsection \<open>A segment staged into a full bucket\<close>



subsection \<open>At most one staged entry per flow\<close>



subsection \<open>The size of a coalesced packet\<close>




end
